theory Spec2Isabelle
  imports Main "HOL-Library.Word"
begin

unbundle bit_operations_syntax

section \<open>Device constants\<close>

text \<open>
  Modelled from the spec: the device header that declares the watchdog bit masks is not
  part of \<^verbatim>\<open>watchdog.c\<close>. The spec fixes the layout (a 16-bit register whose upper
  byte is the password field and whose lower byte holds the hold bit, the NMI edge and NMI
  select bits, the timer-mode-select bit, the count-clear bit, the clock-source-select bit
  and the 2-bit interval-select field); the values below are those of the MSP430x2xx
  register \<^verbatim>\<open>WDTCTL\<close>, with \<^verbatim>\<open>WDTIS_n\<close> the interval-select field holding \<open>n\<close>, and of
  bit \<^verbatim>\<open>WDTIE\<close> of the interrupt-enable register \<^verbatim>\<open>IE1\<close>.
\<close>

definition WDTPW :: "16 word" where "WDTPW = 0x5A00"
definition WDTHOLD :: "16 word" where "WDTHOLD = 0x0080"
definition WDTNMIES :: "16 word" where "WDTNMIES = 0x0040"
definition WDTNMI :: "16 word" where "WDTNMI = 0x0020"
definition WDTTMSEL :: "16 word" where "WDTTMSEL = 0x0010"
definition WDTCNTCL :: "16 word" where "WDTCNTCL = 0x0008"
definition WDTSSEL :: "16 word" where "WDTSSEL = 0x0004"
definition WDTIS_1 :: "16 word" where "WDTIS_1 = 1"
definition WDTIS_2 :: "16 word" where "WDTIS_2 = 2"
definition WDTIS_3 :: "16 word" where "WDTIS_3 = 3"
definition WDTIE :: "8 word" where "WDTIE = 0x01"

text \<open>
  The library's own identifiers for the clock sources, the reset-pin mode and the edge
  (\<^verbatim>\<open>ACLK\<close>, \<^verbatim>\<open>SMCLK\<close>, \<^verbatim>\<open>NMI\<close>, \<^verbatim>\<open>FALLING\<close>) are declared outside
  \<^verbatim>\<open>watchdog.c\<close> as well; nothing is known about their values, so they are parameters
  of the model, together with the build option \<^verbatim>\<open>NO_WDT_ISR\<close> that the file tests with
  \<^verbatim>\<open>#ifndef\<close>.
\<close>

record build =
  ACLK :: "16 word"
  SMCLK :: "16 word"
  NMI :: "16 word"
  FALLING :: "16 word"
  NO_WDT_ISR :: bool

section \<open>Machine state\<close>

text \<open>
  \<^verbatim>\<open>WDTCTL\<close> and \<^verbatim>\<open>IE1\<close> are memory-mapped registers, modelled as a backing store
  that returns on a read what was last written. \<^verbatim>\<open>watchdogFunctionToCall\<close> is the
  file-scope function pointer; \<open>'f\<close> is the type of function pointers. Every store the
  code performs is appended to \<open>trace\<close>, in program order.
\<close>

datatype 'f event =
    Wr_WDTCTL "16 word"
  | Wr_IE1 "8 word"
  | Wr_watchdogFunctionToCall 'f

record 'f mcu =
  WDTCTL :: "16 word"
  IE1 :: "8 word"
  watchdogFunctionToCall :: 'f
  trace :: "'f event list"

definition write_WDTCTL :: "16 word \<Rightarrow> 'f mcu \<Rightarrow> 'f mcu" where
  "write_WDTCTL v s = s\<lparr>WDTCTL := v, trace := trace s @ [Wr_WDTCTL v]\<rparr>"

definition write_IE1 :: "8 word \<Rightarrow> 'f mcu \<Rightarrow> 'f mcu" where
  "write_IE1 v s = s\<lparr>IE1 := v, trace := trace s @ [Wr_IE1 v]\<rparr>"

definition write_watchdogFunctionToCall :: "'f \<Rightarrow> 'f mcu \<Rightarrow> 'f mcu" where
  "write_watchdogFunctionToCall f s =
     s\<lparr>watchdogFunctionToCall := f, trace := trace s @ [Wr_watchdogFunctionToCall f]\<rparr>"

text \<open>
  \<^verbatim>\<open>(unsigned char)WDTCTL\<close>: the low byte of the register, and its integer promotion
  back to 16 bits when it is an operand of \<^verbatim>\<open>|\<close>, \<^verbatim>\<open>&\<close> or \<^verbatim>\<open>+\<close>.
\<close>

definition uchar_WDTCTL :: "'f mcu \<Rightarrow> 8 word" where
  "uchar_WDTCTL s = ucast (WDTCTL s)"

definition promote :: "8 word \<Rightarrow> 16 word" where
  "promote b = ucast b"

section \<open>The operations of watchdog.c\<close>

definition detectWatchdog :: "'f mcu \<Rightarrow> bool \<times> 'f mcu" where
  "detectWatchdog s =
     (let tempwdt = uchar_WDTCTL s;
          s1 = write_WDTCTL (WDTPW + (promote tempwdt OR WDTHOLD)) s
      in if uchar_WDTCTL s1 > 0 then (True, s1) else (False, s1))"

definition holdWatchdog :: "'f mcu \<Rightarrow> 'f mcu" where
  "holdWatchdog s =
     (let tempwdt = promote (uchar_WDTCTL s)
      in write_WDTCTL (WDTPW + (tempwdt OR WDTHOLD)) s)"

definition startWatchdog :: "build \<Rightarrow> 16 word \<Rightarrow> 16 word \<Rightarrow> 'f mcu \<Rightarrow> 16 word \<times> 'f mcu" where
  "startWatchdog b clocksource divider s =
     (let s1 = write_WDTCTL (WDTPW + WDTHOLD) s;
          watchdogbits = WDTHOLD OR WDTCNTCL
      in case (if clocksource = ACLK b then Some (watchdogbits OR WDTSSEL)
               else if clocksource \<noteq> SMCLK b then None
               else Some watchdogbits) of
           None \<Rightarrow> (1, s1)
         | Some watchdogbits \<Rightarrow>
             (case (if divider = 64 then Some (watchdogbits OR WDTIS_3)
                    else if divider = 512 then Some (watchdogbits OR WDTIS_2)
                    else if divider = 8912 then Some (watchdogbits OR WDTIS_1)
                    else if divider = 32768 then Some watchdogbits
                    else None) of
                None \<Rightarrow> (2, s1)
              | Some watchdogbits \<Rightarrow> (0, write_WDTCTL (WDTPW OR watchdogbits) s1)))"

definition resetWatchdog :: "'f mcu \<Rightarrow> 'f mcu" where
  "resetWatchdog s = write_WDTCTL WDTPW s"

definition clearWatchdog :: "'f mcu \<Rightarrow> 'f mcu" where
  "clearWatchdog s = write_WDTCTL (WDTPW + (promote (uchar_WDTCTL s) OR WDTCNTCL)) s"

definition holdWatchdogTimer :: "'f mcu \<Rightarrow> 'f mcu" where
  "holdWatchdogTimer s = write_WDTCTL (WDTPW + (promote (uchar_WDTCTL s) OR WDTHOLD)) s"

definition startWatchdogTimer ::
  "build \<Rightarrow> 16 word \<Rightarrow> 16 word \<Rightarrow> 'f \<Rightarrow> 'f mcu \<Rightarrow> 16 word \<times> 'f mcu" where
  "startWatchdogTimer b clocksource divider function s =
     (let s1 = write_WDTCTL (WDTPW + WDTHOLD) s;
          watchdogbits = WDTTMSEL OR WDTCNTCL
      in case (if clocksource = ACLK b then Some (watchdogbits OR WDTSSEL)
               else if clocksource \<noteq> SMCLK b then None
               else Some watchdogbits) of
           None \<Rightarrow> (1, s1)
         | Some watchdogbits \<Rightarrow>
             (case (if divider = 64 then Some (watchdogbits OR WDTIS_3)
                    else if divider = 512 then Some (watchdogbits OR WDTIS_2)
                    else if divider = 8912 then Some (watchdogbits OR WDTIS_1)
                    else if divider = 32768 then Some watchdogbits
                    else None) of
                None \<Rightarrow> (2, s1)
              | Some watchdogbits \<Rightarrow>
                  (let s2 = write_IE1 (IE1 s1 OR WDTIE) s1;
                       s3 = (if NO_WDT_ISR b then s2
                             else write_watchdogFunctionToCall function s2)
                   in (0, write_WDTCTL (WDTPW OR watchdogbits) s3))))"

definition resetWatchdogTimer :: "'f mcu \<Rightarrow> 'f mcu" where
  "resetWatchdogTimer s = write_WDTCTL (WDTPW + (promote (uchar_WDTCTL s) OR WDTTMSEL)) s"

definition resetPinMode :: "build \<Rightarrow> 16 word \<Rightarrow> 16 word \<Rightarrow> 'f mcu \<Rightarrow> 'f mcu" where
  "resetPinMode b mode edge s =
     (let s1 = (if mode = NMI b
                then write_WDTCTL (WDTPW + (promote (uchar_WDTCTL s) OR WDTNMI)) s
                else write_WDTCTL (WDTPW + (promote (uchar_WDTCTL s) AND NOT WDTNMI)) s)
      in if edge = FALLING b
         then write_WDTCTL (WDTPW + (promote (uchar_WDTCTL s1) OR WDTNMIES)) s1
         else write_WDTCTL (WDTPW + (promote (uchar_WDTCTL s1) AND NOT WDTNMIES)) s1)"

section \<open>Sequences of calls\<close>

text \<open>
  One constructor per operation of the file, and \<open>exec\<close> running a call for its effect on
  the machine (the returned status or boolean is dropped).
\<close>

datatype 'f call =
    DetectWatchdog
  | HoldWatchdog
  | StartWatchdog "16 word" "16 word"
  | ResetWatchdog
  | ClearWatchdog
  | HoldWatchdogTimer
  | StartWatchdogTimer "16 word" "16 word" 'f
  | ResetWatchdogTimer
  | ResetPinMode "16 word" "16 word"

fun exec :: "build \<Rightarrow> 'f call \<Rightarrow> 'f mcu \<Rightarrow> 'f mcu" where
  "exec b DetectWatchdog s = snd (detectWatchdog s)"
| "exec b HoldWatchdog s = holdWatchdog s"
| "exec b (StartWatchdog clocksource divider) s = snd (startWatchdog b clocksource divider s)"
| "exec b ResetWatchdog s = resetWatchdog s"
| "exec b ClearWatchdog s = clearWatchdog s"
| "exec b HoldWatchdogTimer s = holdWatchdogTimer s"
| "exec b (StartWatchdogTimer clocksource divider function) s =
     snd (startWatchdogTimer b clocksource divider function s)"
| "exec b ResetWatchdogTimer s = resetWatchdogTimer s"
| "exec b (ResetPinMode mode edge) s = resetPinMode b mode edge s"

section \<open>Reading a register value\<close>

text \<open>
  The fields of a 16-bit value of \<^verbatim>\<open>WDTCTL\<close>: the password field is the upper byte, a
  flag \<open>m\<close> (one of the bit masks above) is set when all its bits are, the interval-select
  field is the two lowest bits.
\<close>

definition password_ok :: "16 word \<Rightarrow> bool" where
  "password_ok v \<longleftrightarrow> v AND 0xFF00 = WDTPW"

definition low_byte :: "16 word \<Rightarrow> 16 word" where
  "low_byte v = v AND 0x00FF"

definition is_set :: "'a::len word \<Rightarrow> 'a word \<Rightarrow> bool" where
  "is_set m v \<longleftrightarrow> v AND m = m"

definition interval_select :: "16 word \<Rightarrow> 16 word" where
  "interval_select v = v AND 3"

text \<open>The values stored to \<^verbatim>\<open>WDTCTL\<close> in a trace, in order.\<close>

fun WDTCTL_writes :: "'f event list \<Rightarrow> 16 word list" where
  "WDTCTL_writes [] = []"
| "WDTCTL_writes (Wr_WDTCTL v # es) = v # WDTCTL_writes es"
| "WDTCTL_writes (Wr_IE1 v # es) = WDTCTL_writes es"
| "WDTCTL_writes (Wr_watchdogFunctionToCall f # es) = WDTCTL_writes es"

text \<open>The registers and the callback slot, without the trace.\<close>

definition regs :: "'f mcu \<Rightarrow> 16 word \<times> 8 word \<times> 'f" where
  "regs s = (WDTCTL s, IE1 s, watchdogFunctionToCall s)"

text \<open>
  A concrete build and machine for closed instances: function pointers are numbers, the
  interrupt routine is compiled in, the register reads \<open>0x6900\<close> as after power-up, and
  nothing has been stored yet.
\<close>

definition build0 :: build where
  "build0 = \<lparr>ACLK = 1, SMCLK = 2, NMI = 1, FALLING = 1, NO_WDT_ISR = False\<rparr>"

definition mcu0 :: "nat mcu" where
  "mcu0 = \<lparr>WDTCTL = 0x6900, IE1 = 0, watchdogFunctionToCall = 0, trace = []\<rparr>"

section \<open>Word facts\<close>

lemmas wdt_consts = WDTPW_def WDTHOLD_def WDTNMIES_def WDTNMI_def WDTTMSEL_def WDTCNTCL_def
  WDTSSEL_def WDTIS_1_def WDTIS_2_def WDTIS_3_def

lemma promote_uchar: "promote (uchar_WDTCTL s) = low_byte (WDTCTL s)"
proof -
  have "(0xFF::16 word) = mask 8" by (simp add: mask_eq_exp_minus_1)
  then show ?thesis
    unfolding promote_def uchar_WDTCTL_def low_byte_def
    by (auto simp add: bit_eq_iff bit_simps)
qed

lemma low_byte_high: "low_byte w AND 0xFF00 = 0"
  by (simp add: low_byte_def and.assoc)

lemma add_low: "y AND 0xFF00 = 0 \<Longrightarrow> WDTPW + y = WDTPW OR y"
proof -
  assume h: "y AND 0xFF00 = 0"
  have "WDTPW AND y = (WDTPW AND 0xFF00) AND y" by (simp add: WDTPW_def)
  also have "\<dots> = WDTPW AND (y AND 0xFF00)" by (simp only: ac_simps)
  also have "\<dots> = 0" by (simp add: h)
  finally show ?thesis by (rule disjunctive_add_eq_or)
qed

lemma high_or: "(low_byte w OR m) AND 0xFF00 = m AND 0xFF00"
  by (simp add: bit.conj_disj_distrib2 low_byte_high)

lemma high_and: "(low_byte w AND m) AND 0xFF00 = 0"
  by (simp add: low_byte_def and.assoc and.left_commute)

text \<open>Each committed value of the read-modify-write operations, with \<open>+\<close> turned into \<open>OR\<close>.\<close>

lemma commit_or:
  "m AND 0xFF00 = 0 \<Longrightarrow> WDTPW + (low_byte w OR m) = WDTPW OR (low_byte w OR m)"
  by (rule add_low) (simp add: high_or)

lemma commit_and: "WDTPW + (low_byte w AND m) = WDTPW OR (low_byte w AND m)"
  by (rule add_low) (simp add: high_and)

lemma pw_or: "y AND 0xFF00 = 0 \<Longrightarrow> password_ok (WDTPW OR y)"
  by (simp add: password_ok_def bit.conj_disj_distrib2) (simp add: WDTPW_def)

lemma pw_commit_or: "m AND 0xFF00 = 0 \<Longrightarrow> password_ok (WDTPW + (low_byte w OR m))"
  by (simp add: commit_or) (rule pw_or, simp add: high_or)

lemma pw_commit_and: "password_ok (WDTPW + (low_byte w AND m))"
  by (simp add: commit_and) (rule pw_or, simp add: high_and)

section \<open>Traces\<close>

lemma WDTCTL_writes_append: "WDTCTL_writes (es @ fs) = WDTCTL_writes es @ WDTCTL_writes fs"
  by (induction es rule: WDTCTL_writes.induct) simp_all

lemma writes_write_WDTCTL:
  "WDTCTL_writes (trace (write_WDTCTL v s)) = WDTCTL_writes (trace s) @ [v]"
  by (simp add: write_WDTCTL_def WDTCTL_writes_append)

lemma writes_write_IE1: "WDTCTL_writes (trace (write_IE1 v s)) = WDTCTL_writes (trace s)"
  by (simp add: write_IE1_def WDTCTL_writes_append)

lemma writes_write_fn:
  "WDTCTL_writes (trace (write_watchdogFunctionToCall f s)) = WDTCTL_writes (trace s)"
  by (simp add: write_watchdogFunctionToCall_def WDTCTL_writes_append)

lemma WDTCTL_write_WDTCTL: "WDTCTL (write_WDTCTL v s) = v"
  by (simp add: write_WDTCTL_def)

lemmas writes_simps = writes_write_WDTCTL writes_write_IE1 writes_write_fn

section \<open>Password\<close>

lemma pw_hold: "password_ok (WDTPW + WDTHOLD)"
  by (simp add: password_ok_def wdt_consts)

lemma pw_bare: "password_ok WDTPW"
  by (simp add: password_ok_def wdt_consts)

lemma pw_detectWatchdog:
  "list_all password_ok (WDTCTL_writes (trace s)) \<Longrightarrow>
   list_all password_ok (WDTCTL_writes (trace (snd (detectWatchdog s))))"
  by (simp add: detectWatchdog_def Let_def writes_simps promote_uchar pw_commit_or WDTHOLD_def)

lemma pw_holdWatchdog:
  "list_all password_ok (WDTCTL_writes (trace s)) \<Longrightarrow>
   list_all password_ok (WDTCTL_writes (trace (holdWatchdog s)))"
  by (simp add: holdWatchdog_def Let_def writes_simps promote_uchar pw_commit_or WDTHOLD_def)

lemma pw_startWatchdog:
  "list_all password_ok (WDTCTL_writes (trace s)) \<Longrightarrow>
   list_all password_ok (WDTCTL_writes (trace (snd (startWatchdog b c d s))))"
  by (simp add: startWatchdog_def Let_def writes_simps pw_hold)
    (simp add: password_ok_def wdt_consts)

lemma pw_startWatchdogTimer:
  "list_all password_ok (WDTCTL_writes (trace s)) \<Longrightarrow>
   list_all password_ok (WDTCTL_writes (trace (snd (startWatchdogTimer b c d f s))))"
  by (simp add: startWatchdogTimer_def Let_def writes_simps pw_hold)
    (simp add: password_ok_def wdt_consts)

lemma pw_resetWatchdog:
  "list_all password_ok (WDTCTL_writes (trace s)) \<Longrightarrow>
   list_all password_ok (WDTCTL_writes (trace (resetWatchdog s)))"
  by (simp add: resetWatchdog_def writes_simps pw_bare)

lemma pw_clearWatchdog:
  "list_all password_ok (WDTCTL_writes (trace s)) \<Longrightarrow>
   list_all password_ok (WDTCTL_writes (trace (clearWatchdog s)))"
  by (simp add: clearWatchdog_def writes_simps promote_uchar pw_commit_or WDTCNTCL_def)

lemma pw_holdWatchdogTimer:
  "list_all password_ok (WDTCTL_writes (trace s)) \<Longrightarrow>
   list_all password_ok (WDTCTL_writes (trace (holdWatchdogTimer s)))"
  by (simp add: holdWatchdogTimer_def writes_simps promote_uchar pw_commit_or WDTHOLD_def)

lemma pw_resetWatchdogTimer:
  "list_all password_ok (WDTCTL_writes (trace s)) \<Longrightarrow>
   list_all password_ok (WDTCTL_writes (trace (resetWatchdogTimer s)))"
  by (simp add: resetWatchdogTimer_def writes_simps promote_uchar pw_commit_or WDTTMSEL_def)

lemma pw_resetPinMode:
  "list_all password_ok (WDTCTL_writes (trace s)) \<Longrightarrow>
   list_all password_ok (WDTCTL_writes (trace (resetPinMode b mode edge s)))"
  by (simp add: resetPinMode_def Let_def writes_simps promote_uchar pw_commit_or pw_commit_and
      WDTNMI_def WDTNMIES_def)

lemma pw_exec:
  "list_all password_ok (WDTCTL_writes (trace s)) \<Longrightarrow>
   list_all password_ok (WDTCTL_writes (trace (exec b c s)))"
  by (cases c)
    (simp_all add: pw_detectWatchdog pw_holdWatchdog pw_startWatchdog pw_resetWatchdog
      pw_clearWatchdog pw_holdWatchdogTimer pw_startWatchdogTimer pw_resetWatchdogTimer
      pw_resetPinMode)

lemma pw_fold:
  "list_all password_ok (WDTCTL_writes (trace s)) \<Longrightarrow>
   list_all password_ok (WDTCTL_writes (trace (fold (exec b) cs s)))"
  by (induction cs arbitrary: s) (simp_all add: pw_exec)

text \<open>
  Claim C1. Whatever the registers hold at the start and whatever sequence of operations of
  the file is run, with whatever arguments and in either build, every value stored to
  \<^verbatim>\<open>WDTCTL\<close> has the password \<^verbatim>\<open>WDTPW\<close> in its upper byte.
\<close>

theorem every_write_has_password:
  "list_all password_ok (WDTCTL_writes (trace (fold (exec b) cs (s\<lparr>trace := []\<rparr>))))"
  by (rule pw_fold) simp


section \<open>hold and clear\<close>

lemma holdWatchdog_eq:
  "holdWatchdog s = write_WDTCTL (WDTPW OR (low_byte (WDTCTL s) OR WDTHOLD)) s"
  by (simp add: holdWatchdog_def Let_def promote_uchar commit_or WDTHOLD_def)

lemma clearWatchdog_eq:
  "clearWatchdog s = write_WDTCTL (WDTPW OR (low_byte (WDTCTL s) OR WDTCNTCL)) s"
  by (simp add: clearWatchdog_def promote_uchar commit_or WDTCNTCL_def)

lemmas field_simps_wdt = is_set_def interval_select_def low_byte_def bit.conj_disj_distrib2
  and.assoc wdt_consts

text \<open>
  Claim C8. After \<^verbatim>\<open>holdWatchdog\<close> the hold bit of the low byte is set and the other
  bits of the low byte are those read before the call; a second call right after the first
  leaves the control register, the interrupt-enable register and the callback slot as the
  first call left them.
\<close>

theorem holdWatchdog_sets_hold:
  "is_set WDTHOLD (low_byte (WDTCTL (holdWatchdog s)))
   \<and> low_byte (WDTCTL (holdWatchdog s)) AND NOT WDTHOLD = low_byte (WDTCTL s) AND NOT WDTHOLD
   \<and> regs (holdWatchdog (holdWatchdog s)) = regs (holdWatchdog s)"
  by (simp add: holdWatchdog_eq write_WDTCTL_def regs_def) (simp add: field_simps_wdt)

text \<open>
  Claim C9. \<^verbatim>\<open>holdWatchdogTimer\<close> and \<^verbatim>\<open>holdWatchdog\<close> (both return nothing) take
  every machine state to the same state, with the same store performed.
\<close>

theorem holdWatchdogTimer_same: "holdWatchdogTimer s = holdWatchdog s"
  by (simp add: holdWatchdogTimer_def holdWatchdog_def Let_def)

text \<open>
  Claim C6. \<^verbatim>\<open>clearWatchdog\<close> performs one store to \<^verbatim>\<open>WDTCTL\<close>. The value carries
  the password, its low byte is the low byte read before the call with the count-clear bit
  added, so the clock-source-select, timer-mode-select, interval-select, hold and NMI bits
  are as they were.
\<close>

theorem clearWatchdog_frame:
  "trace (clearWatchdog s) = trace s @ [Wr_WDTCTL (WDTCTL (clearWatchdog s))]
   \<and> password_ok (WDTCTL (clearWatchdog s))
   \<and> low_byte (WDTCTL (clearWatchdog s)) = low_byte (WDTCTL s) OR WDTCNTCL
   \<and> is_set WDTCNTCL (WDTCTL (clearWatchdog s))
   \<and> is_set WDTSSEL (WDTCTL (clearWatchdog s)) = is_set WDTSSEL (WDTCTL s)
   \<and> is_set WDTTMSEL (WDTCTL (clearWatchdog s)) = is_set WDTTMSEL (WDTCTL s)
   \<and> interval_select (WDTCTL (clearWatchdog s)) = interval_select (WDTCTL s)
   \<and> is_set WDTHOLD (WDTCTL (clearWatchdog s)) = is_set WDTHOLD (WDTCTL s)
   \<and> is_set WDTNMI (WDTCTL (clearWatchdog s)) = is_set WDTNMI (WDTCTL s)
   \<and> is_set WDTNMIES (WDTCTL (clearWatchdog s)) = is_set WDTNMIES (WDTCTL s)"
  by (simp add: clearWatchdog_eq write_WDTCTL_def) (simp add: password_ok_def field_simps_wdt)


section \<open>Reset pin\<close>

lemma resetPinMode_eq:
  "resetPinMode b mode edge s =
     (let v1 = WDTPW OR (if mode = NMI b then low_byte (WDTCTL s) OR WDTNMI
                          else low_byte (WDTCTL s) AND NOT WDTNMI);
          v2 = WDTPW OR (if edge = FALLING b then low_byte v1 OR WDTNMIES
                          else low_byte v1 AND NOT WDTNMIES)
      in s\<lparr>WDTCTL := v2, trace := trace s @ [Wr_WDTCTL v1, Wr_WDTCTL v2]\<rparr>)"
  by (simp add: resetPinMode_def Let_def promote_uchar commit_or commit_and WDTNMI_def
      WDTNMIES_def write_WDTCTL_def)

text \<open>
  Claim C7. \<^verbatim>\<open>resetPinMode\<close> performs exactly two stores to \<^verbatim>\<open>WDTCTL\<close>, both with
  the password. The first sets the NMI-select bit when \<open>mode\<close> is \<^verbatim>\<open>NMI\<close> and clears it
  for any other mode, keeping the rest of the low byte; the second sets the NMI-edge-select
  bit when \<open>edge\<close> is \<^verbatim>\<open>FALLING\<close> and clears it for any other edge, keeping the rest of
  the low byte. So in the final value each of the two bits depends on its own argument only,
  whatever the register held, and the six other bits of the low byte are unchanged.
\<close>

theorem resetPinMode_bits:
  "\<exists>v1 v2. trace (resetPinMode b mode edge s) = trace s @ [Wr_WDTCTL v1, Wr_WDTCTL v2]
     \<and> WDTCTL (resetPinMode b mode edge s) = v2
     \<and> password_ok v1 \<and> password_ok v2
     \<and> is_set WDTNMI v1 = (mode = NMI b)
     \<and> low_byte v1 AND NOT WDTNMI = low_byte (WDTCTL s) AND NOT WDTNMI
     \<and> is_set WDTNMIES v2 = (edge = FALLING b)
     \<and> low_byte v2 AND NOT WDTNMIES = low_byte v1 AND NOT WDTNMIES
     \<and> is_set WDTNMI v2 = (mode = NMI b)
     \<and> low_byte v2 AND NOT (WDTNMI OR WDTNMIES) =
         low_byte (WDTCTL s) AND NOT (WDTNMI OR WDTNMIES)
     \<and> IE1 (resetPinMode b mode edge s) = IE1 s
     \<and> watchdogFunctionToCall (resetPinMode b mode edge s) = watchdogFunctionToCall s"
  by (simp add: resetPinMode_eq Let_def) (simp add: password_ok_def field_simps_wdt)

section \<open>The start operations\<close>

text \<open>Both start operations as one case distinction on the arguments.\<close>

lemma sw_cases:
  "startWatchdog b c d s =
    (let s1 = write_WDTCTL (WDTPW + WDTHOLD) s in
     if c \<noteq> ACLK b \<and> c \<noteq> SMCLK b then (1, s1)
     else if d \<noteq> 64 \<and> d \<noteq> 512 \<and> d \<noteq> 8912 \<and> d \<noteq> 32768 then (2, s1)
     else (0, write_WDTCTL
            (WDTPW OR ((WDTHOLD OR WDTCNTCL) OR (if c = ACLK b then WDTSSEL else 0)
               OR (if d = 64 then WDTIS_3 else if d = 512 then WDTIS_2
                   else if d = 8912 then WDTIS_1 else 0))) s1))"
  unfolding startWatchdog_def Let_def
  by (simp add: or.assoc)


lemma swt_cases:
  "startWatchdogTimer b c d f s =
    (let s1 = write_WDTCTL (WDTPW + WDTHOLD) s in
     if c \<noteq> ACLK b \<and> c \<noteq> SMCLK b then (1, s1)
     else if d \<noteq> 64 \<and> d \<noteq> 512 \<and> d \<noteq> 8912 \<and> d \<noteq> 32768 then (2, s1)
     else
       let s2 = write_IE1 (IE1 s1 OR WDTIE) s1;
           s3 = (if NO_WDT_ISR b then s2 else write_watchdogFunctionToCall f s2)
       in (0, write_WDTCTL
            (WDTPW OR ((WDTTMSEL OR WDTCNTCL) OR (if c = ACLK b then WDTSSEL else 0)
               OR (if d = 64 then WDTIS_3 else if d = 512 then WDTIS_2
                   else if d = 8912 then WDTIS_1 else 0))) s3))"
  unfolding startWatchdogTimer_def Let_def
  by (simp add: or.assoc)

lemma startWatchdog_invalid_clock:
  "c \<noteq> ACLK b \<Longrightarrow> c \<noteq> SMCLK b \<Longrightarrow>
   startWatchdog b c d s = (1, write_WDTCTL (WDTPW + WDTHOLD) s)"
  by (simp add: sw_cases)

lemma startWatchdog_invalid_divider:
  "c = ACLK b \<or> c = SMCLK b \<Longrightarrow> d \<noteq> 64 \<Longrightarrow> d \<noteq> 512 \<Longrightarrow> d \<noteq> 8912 \<Longrightarrow> d \<noteq> 32768 \<Longrightarrow>
   startWatchdog b c d s = (2, write_WDTCTL (WDTPW + WDTHOLD) s)"
  by (auto simp add: sw_cases Let_def)

lemma startWatchdogTimer_invalid_clock:
  "c \<noteq> ACLK b \<Longrightarrow> c \<noteq> SMCLK b \<Longrightarrow>
   startWatchdogTimer b c d f s = (1, write_WDTCTL (WDTPW + WDTHOLD) s)"
  by (simp add: swt_cases)

lemma startWatchdogTimer_invalid_divider:
  "c = ACLK b \<or> c = SMCLK b \<Longrightarrow> d \<noteq> 64 \<Longrightarrow> d \<noteq> 512 \<Longrightarrow> d \<noteq> 8912 \<Longrightarrow> d \<noteq> 32768 \<Longrightarrow>
   startWatchdogTimer b c d f s = (2, write_WDTCTL (WDTPW + WDTHOLD) s)"
  by (auto simp add: swt_cases Let_def)

lemma startWatchdog_success_bits:
  assumes "fst (startWatchdog b c d s) = 0"
  shows "is_set WDTHOLD (WDTCTL (snd (startWatchdog b c d s)))
   \<and> \<not> is_set WDTTMSEL (WDTCTL (snd (startWatchdog b c d s)))
   \<and> is_set WDTCNTCL (WDTCTL (snd (startWatchdog b c d s)))
   \<and> is_set WDTSSEL (WDTCTL (snd (startWatchdog b c d s))) = (c = ACLK b)"
proof -
  from assms have ok: "(c = ACLK b \<or> c = SMCLK b) \<and> (d = 64 \<or> d = 512 \<or> d = 8912 \<or> d = 32768)"
    by (simp add: sw_cases Let_def split: if_splits)
  then have "startWatchdog b c d s = (0, write_WDTCTL
            (WDTPW OR ((WDTHOLD OR WDTCNTCL) OR (if c = ACLK b then WDTSSEL else 0)
               OR (if d = 64 then WDTIS_3 else if d = 512 then WDTIS_2
                   else if d = 8912 then WDTIS_1 else 0))) (write_WDTCTL (WDTPW + WDTHOLD) s))"
    by (simp add: sw_cases Let_def)
  then show ?thesis
    by (simp add: WDTCTL_write_WDTCTL) (simp add: field_simps_wdt)
qed


lemma startWatchdog_interval_table:
  assumes "c = ACLK b \<or> c = SMCLK b" and "d = 64 \<or> d = 512 \<or> d = 32768"
  shows "fst (startWatchdog b c d s) = 0 \<and>
   interval_select (WDTCTL (snd (startWatchdog b c d s))) =
     (if d = 64 then 3 else if d = 512 then 2 else 0)"
proof -
  from assms have "startWatchdog b c d s = (0, write_WDTCTL
            (WDTPW OR ((WDTHOLD OR WDTCNTCL) OR (if c = ACLK b then WDTSSEL else 0)
               OR (if d = 64 then WDTIS_3 else if d = 512 then WDTIS_2
                   else if d = 8912 then WDTIS_1 else 0))) (write_WDTCTL (WDTPW + WDTHOLD) s))"
    by (auto simp add: sw_cases Let_def)
  with assms(2) show ?thesis
    by (simp add: WDTCTL_write_WDTCTL) (auto simp add: field_simps_wdt)
qed

text \<open>
  Claim C2. The divider table of \<^verbatim>\<open>startWatchdog\<close> is right for 64, 512 and 32768
  (\<open>startWatchdog_interval_table\<close>), but its third case label is 8912: a call with the
  divider 8192 and either valid clock source returns 2, after the initial hold write and
  nothing else.
\<close>

theorem startWatchdog_rejects_8192:
  "startWatchdog b (ACLK b) 8192 s = (2, write_WDTCTL (WDTPW + WDTHOLD) s)
   \<and> startWatchdog b (SMCLK b) 8192 s = (2, write_WDTCTL (WDTPW + WDTHOLD) s)"
  by (simp add: sw_cases)

text \<open>
  Claim C3. \<^verbatim>\<open>startWatchdog\<close> starts its bit pattern from
  \<^verbatim>\<open>WDTHOLD | WDTCNTCL\<close>, so the value it commits has the hold bit set: with the
  auxiliary clock and divider 64 it stores \<open>0x5A80\<close>, then \<open>0x5A8F\<close>, and returns 0.
  \<open>startWatchdog_success_bits\<close> has the same for every successful call, with the three
  other bits of the claim as the claim states them.
\<close>

theorem startWatchdog_commits_hold:
  "startWatchdog b (ACLK b) 64 s =
     (0, s\<lparr>WDTCTL := 0x5A8F, trace := trace s @ [Wr_WDTCTL 0x5A80, Wr_WDTCTL 0x5A8F]\<rparr>)
   \<and> is_set WDTHOLD 0x5A8F"
  by (simp add: sw_cases write_WDTCTL_def is_set_def wdt_consts)

text \<open>
  Claim C5. Both start operations return 1 for a clock source that is neither \<^verbatim>\<open>ACLK\<close>
  nor \<^verbatim>\<open>SMCLK\<close>, and 2 for a divider outside 64, 512, 8912, 32768, in both cases after
  the initial hold write only (the four lemmas above). The divider 8912 itself, which is
  not a divider of the watchdog, is accepted: both operations return 0 and commit a
  configuration with the interval-select field 1.
\<close>

theorem start_accepts_8912:
  "startWatchdog b (ACLK b) 8912 s =
     (0, s\<lparr>WDTCTL := 0x5A8D, trace := trace s @ [Wr_WDTCTL 0x5A80, Wr_WDTCTL 0x5A8D]\<rparr>)
   \<and> fst (startWatchdogTimer b (ACLK b) 8912 f s) = 0
   \<and> WDTCTL (snd (startWatchdogTimer b (ACLK b) 8912 f s)) = 0x5A1D"
  by (simp add: sw_cases swt_cases Let_def write_WDTCTL_def wdt_consts)


text \<open>
  Claim C4, amended. For the clock source \<^verbatim>\<open>ACLK\<close> or \<^verbatim>\<open>SMCLK\<close>, a divider among
  64, 512 and 32768 and any callback, \<^verbatim>\<open>startWatchdogTimer\<close> returns 0. After the
  initial hold write it stores, in this order: \<^verbatim>\<open>IE1\<close> with \<^verbatim>\<open>WDTIE\<close> added; the
  callback into \<^verbatim>\<open>watchdogFunctionToCall\<close>, unless the build defines
  \<^verbatim>\<open>NO_WDT_ISR\<close>, in which case the slot is not written; and last the committed value
  of \<^verbatim>\<open>WDTCTL\<close>, which carries the password and has the timer-mode-select bit set.
\<close>

theorem startWatchdogTimer_valid:
  assumes "c = ACLK b \<or> c = SMCLK b" and "d = 64 \<or> d = 512 \<or> d = 32768"
  shows "fst (startWatchdogTimer b c d f s) = 0
    \<and> IE1 (snd (startWatchdogTimer b c d f s)) = IE1 s OR WDTIE
    \<and> is_set WDTIE (IE1 (snd (startWatchdogTimer b c d f s)))
    \<and> is_set WDTTMSEL (WDTCTL (snd (startWatchdogTimer b c d f s)))
    \<and> password_ok (WDTCTL (snd (startWatchdogTimer b c d f s)))
    \<and> watchdogFunctionToCall (snd (startWatchdogTimer b c d f s)) =
        (if NO_WDT_ISR b then watchdogFunctionToCall s else f)
    \<and> trace (snd (startWatchdogTimer b c d f s)) =
        trace s @ [Wr_WDTCTL (WDTPW + WDTHOLD), Wr_IE1 (IE1 s OR WDTIE)]
          @ (if NO_WDT_ISR b then [] else [Wr_watchdogFunctionToCall f])
          @ [Wr_WDTCTL (WDTCTL (snd (startWatchdogTimer b c d f s)))]"
proof -
  let ?v = "WDTPW OR ((WDTTMSEL OR WDTCNTCL) OR (if c = ACLK b then WDTSSEL else 0)
               OR (if d = 64 then WDTIS_3 else if d = 512 then WDTIS_2
                   else if d = 8912 then WDTIS_1 else 0))"
  let ?s1 = "write_WDTCTL (WDTPW + WDTHOLD) s"
  let ?s2 = "write_IE1 (IE1 ?s1 OR WDTIE) ?s1"
  let ?s3 = "if NO_WDT_ISR b then ?s2 else write_watchdogFunctionToCall f ?s2"
  from assms have r: "startWatchdogTimer b c d f s = (0, write_WDTCTL ?v ?s3)"
    by (auto simp add: swt_cases Let_def)
  have v: "is_set WDTTMSEL ?v \<and> password_ok ?v"
    by (simp add: password_ok_def field_simps_wdt)
  have ie: "is_set WDTIE (IE1 s OR WDTIE)"
    by (simp add: is_set_def WDTIE_def bit.conj_disj_distrib2)
  have st: "write_WDTCTL ?v ?s3 = s\<lparr>WDTCTL := ?v, IE1 := IE1 s OR WDTIE,
      watchdogFunctionToCall := (if NO_WDT_ISR b then watchdogFunctionToCall s else f),
      trace := trace s @ [Wr_WDTCTL (WDTPW + WDTHOLD), Wr_IE1 (IE1 s OR WDTIE)]
          @ (if NO_WDT_ISR b then [] else [Wr_watchdogFunctionToCall f]) @ [Wr_WDTCTL ?v]\<rparr>"
    by (simp add: write_WDTCTL_def write_IE1_def write_watchdogFunctionToCall_def)
  show ?thesis
    unfolding r st using v ie by simp
qed

text \<open>
  An instance: the auxiliary clock, divider 64 and callback 7 on the machine \<open>mcu0\<close>.
\<close>

theorem startWatchdogTimer_valid_witness:
  "fst (startWatchdogTimer build0 1 64 (7::nat) mcu0) = 0
   \<and> IE1 (snd (startWatchdogTimer build0 1 64 (7::nat) mcu0)) = 1
   \<and> WDTCTL (snd (startWatchdogTimer build0 1 64 (7::nat) mcu0)) = 0x5A1F
   \<and> watchdogFunctionToCall (snd (startWatchdogTimer build0 1 64 (7::nat) mcu0)) = 7
   \<and> trace (snd (startWatchdogTimer build0 1 64 (7::nat) mcu0)) =
       [Wr_WDTCTL 0x5A80, Wr_IE1 1, Wr_watchdogFunctionToCall 7, Wr_WDTCTL 0x5A1F]"
proof -
  have c: "(1::16 word) = ACLK build0 \<or> (1::16 word) = SMCLK build0"
    by (simp add: build0_def)
  have d: "(64::16 word) = 64 \<or> (64::16 word) = 512 \<or> (64::16 word) = 32768"
    by simp
  have w: "WDTCTL (snd (startWatchdogTimer build0 1 64 (7::nat) mcu0)) = 0x5A1F"
    by (simp add: swt_cases Let_def build0_def WDTCTL_write_WDTCTL wdt_consts)
  show ?thesis
    using startWatchdogTimer_valid [OF c d, of 7 mcu0] w
    by (simp add: build0_def mcu0_def WDTIE_def wdt_consts)
qed

text \<open>
  Claim C4 as stated fails: in a build with \<^verbatim>\<open>NO_WDT_ISR\<close> the callback 7 is not in
  the slot after a successful call, and in the default build the divider 8192 is refused.
\<close>

theorem startWatchdogTimer_counterexample:
  "watchdogFunctionToCall
     (snd (startWatchdogTimer (build0\<lparr>NO_WDT_ISR := True\<rparr>) 1 64 (7::nat) mcu0)) \<noteq> 7
   \<and> fst (startWatchdogTimer build0 1 8192 (7::nat) mcu0) \<noteq> 0"
  by (simp add: swt_cases Let_def build0_def mcu0_def write_WDTCTL_def write_IE1_def)

text \<open>
  Claim C10. When \<^verbatim>\<open>startWatchdogTimer\<close> returns a status other than 0, the
  interrupt-enable register and the callback slot hold what they held before the call, and
  the only store of the call is the initial hold write.
\<close>

theorem startWatchdogTimer_error_no_effect:
  assumes "fst (startWatchdogTimer b c d f s) \<noteq> 0"
  shows "IE1 (snd (startWatchdogTimer b c d f s)) = IE1 s
   \<and> watchdogFunctionToCall (snd (startWatchdogTimer b c d f s)) = watchdogFunctionToCall s
   \<and> trace (snd (startWatchdogTimer b c d f s)) = trace s @ [Wr_WDTCTL (WDTPW + WDTHOLD)]"
proof -
  from assms have "snd (startWatchdogTimer b c d f s) = write_WDTCTL (WDTPW + WDTHOLD) s"
    by (simp add: swt_cases Let_def split: if_splits)
  then show ?thesis
    by (simp add: write_WDTCTL_def)
qed

text \<open>
  An instance: the clock source 3 is neither \<^verbatim>\<open>ACLK\<close> nor \<^verbatim>\<open>SMCLK\<close> of \<open>build0\<close>.
\<close>

theorem startWatchdogTimer_error_no_effect_witness:
  "fst (startWatchdogTimer build0 3 64 (7::nat) mcu0) \<noteq> 0
   \<and> IE1 (snd (startWatchdogTimer build0 3 64 (7::nat) mcu0)) = 0
   \<and> watchdogFunctionToCall (snd (startWatchdogTimer build0 3 64 (7::nat) mcu0)) = 0
   \<and> trace (snd (startWatchdogTimer build0 3 64 (7::nat) mcu0)) = [Wr_WDTCTL 0x5A80]"
proof -
  have h: "fst (startWatchdogTimer build0 3 64 (7::nat) mcu0) \<noteq> 0"
    by (simp add: swt_cases Let_def build0_def)
  show ?thesis
    using h startWatchdogTimer_error_no_effect [OF h]
    by (simp add: mcu0_def wdt_consts)
qed

end
